theory Spec2Isabelle
  imports Main "HOL-Library.Word"
begin

section \<open>Python library functions used by GitHubImageHost.py\<close>

text \<open>
  Strings are lists of bytes (UTF-8). The characters the program looks for
  (\<open>/\<close> and \<open>.\<close>) are ASCII, so stripping and searching on bytes agrees with
  Python's code points.
\<close>

definition lstrip :: "char \<Rightarrow> string \<Rightarrow> string" where
  "lstrip c s = dropWhile (\<lambda>x. x = c) s"

definition rstrip :: "char \<Rightarrow> string \<Rightarrow> string" where
  "rstrip c s = rev (dropWhile (\<lambda>x. x = c) (rev s))"

definition strip :: "char \<Rightarrow> string \<Rightarrow> string" where
  "strip c s = rstrip c (lstrip c s)"

text \<open>\<open>s.split(c)\<close>: the pieces between the occurrences of \<open>c\<close>.\<close>

fun split_on :: "char \<Rightarrow> string \<Rightarrow> string list" where
  "split_on c [] = [[]]"
| "split_on c (x # xs) =
     (if x = c then [] # split_on c xs
      else (case split_on c xs of [] \<Rightarrow> [[x]] | p # ps \<Rightarrow> (x # p) # ps))"

text \<open>\<open>s.rfind(c)\<close>: the index of the last occurrence, \<open>None\<close> for Python's -1.\<close>

definition rfind :: "char \<Rightarrow> string \<Rightarrow> nat option" where
  "rfind c s =
     (if c \<in> set s then Some (length s - 1 - length (takeWhile (\<lambda>x. x \<noteq> c) (rev s)))
      else None)"

subsection \<open>pathlib (POSIX flavour)\<close>

text \<open>
  \<open>Path(s).name\<close> is the last component of the path, the empty components and the
  \<open>.\<close> components dropped by the parser; \<open>suffix\<close> and \<open>stem\<close> cut the name at its
  last dot when that dot is neither the first nor the last character.
\<close>

definition path_parts :: "string \<Rightarrow> string list" where
  "path_parts s = filter (\<lambda>p. p \<noteq> [] \<and> p \<noteq> ''.'') (split_on CHR ''/'' s)"

definition path_name :: "string \<Rightarrow> string" where
  "path_name s = (case path_parts s of [] \<Rightarrow> [] | p # ps \<Rightarrow> last (p # ps))"

definition name_cut :: "string \<Rightarrow> nat option" where
  "name_cut n =
     (case rfind CHR ''.'' n of
        None \<Rightarrow> None
      | Some i \<Rightarrow> if 0 < i \<and> i < length n - 1 then Some i else None)"

definition path_suffix :: "string \<Rightarrow> string" where
  "path_suffix s =
     (let n = path_name s in case name_cut n of None \<Rightarrow> [] | Some i \<Rightarrow> drop i n)"

definition path_stem :: "string \<Rightarrow> string" where
  "path_stem s =
     (let n = path_name s in case name_cut n of None \<Rightarrow> n | Some i \<Rightarrow> take i n)"

subsection \<open>The local file system\<close>

type_synonym bytes = "8 word list"

datatype fnode = NoEntry | Directory | RegularFile bytes | Unreadable

datatype error =
    RuntimeError string
  | FileNotFoundError string
  | IsADirectoryError string
  | PermissionError string
  | KeyError string
  | TypeError
  | JSONDecodeError
  | ValueError
  | RequestException string

definition is_file :: "fnode \<Rightarrow> bool" where
  "is_file n = (case n of RegularFile _ \<Rightarrow> True | Unreadable \<Rightarrow> True | _ \<Rightarrow> False)"

definition read_bytes :: "string \<Rightarrow> fnode \<Rightarrow> error + bytes" where
  "read_bytes p n =
     (case n of
        RegularFile b \<Rightarrow> Inr b
      | NoEntry \<Rightarrow> Inl (FileNotFoundError p)
      | Directory \<Rightarrow> Inl (IsADirectoryError p)
      | Unreadable \<Rightarrow> Inl (PermissionError p))"

subsection \<open>base64\<close>

definition b64_alphabet :: string where
  "b64_alphabet = ''ABCDEFGHIJKLMNOPQRSTUVWXYZabcdefghijklmnopqrstuvwxyz0123456789+/''"

definition b64_char :: "nat \<Rightarrow> char" where
  "b64_char n = b64_alphabet ! (n mod 64)"

fun b64_groups :: "nat list \<Rightarrow> string" where
  "b64_groups [] = []"
| "b64_groups [a] = [b64_char (a div 4), b64_char ((a mod 4) * 16), CHR ''='', CHR ''='']"
| "b64_groups [a, b] =
     [b64_char (a div 4), b64_char ((a mod 4) * 16 + b div 16),
      b64_char ((b mod 16) * 4), CHR ''='']"
| "b64_groups (a # b # c # r) =
     [b64_char (a div 4), b64_char ((a mod 4) * 16 + b div 16),
      b64_char ((b mod 16) * 4 + c div 64), b64_char (c mod 64)] @ b64_groups r"

definition b64encode :: "bytes \<Rightarrow> string" where
  "b64encode bs = b64_groups (map unat bs)"

subsection \<open>time.gmtime and time.strftime\<close>

record struct_time =
  tm_year :: nat
  tm_mon :: nat
  tm_mday :: nat
  tm_hour :: nat
  tm_min :: nat
  tm_sec :: nat

definition digit :: "nat \<Rightarrow> char" where
  "digit n = ''0123456789'' ! (n mod 10)"

function show_nat :: "nat \<Rightarrow> string" where
  "show_nat n = (if n < 10 then [digit n] else show_nat (n div 10) @ [digit n])"
  by pat_completeness auto
termination
  by (relation "measure (\<lambda>n. n)") auto

definition pad2 :: "nat \<Rightarrow> string" where
  "pad2 n = (if n < 10 then CHR ''0'' # show_nat n else show_nat n)"

text \<open>\<open>time.strftime("%Y%m%d-%H%M%S", t)\<close>.\<close>

definition strftime :: "struct_time \<Rightarrow> string" where
  "strftime t =
     show_nat (tm_year t) @ pad2 (tm_mon t) @ pad2 (tm_mday t) @ ''-'' @
     pad2 (tm_hour t) @ pad2 (tm_min t) @ pad2 (tm_sec t)"

subsection \<open>Parsed JSON and the Python operations on it\<close>

datatype json =
    JNull
  | JBool bool
  | JInt int
  | JFloat string
  | JStr string
  | JArr "json list"
  | JObj "(string \<times> json) list"

text \<open>\<open>v[k]\<close> with a string key: only a dict can be subscripted by a string.\<close>

definition getitem :: "json \<Rightarrow> string \<Rightarrow> error + json" where
  "getitem v k =
     (case v of
        JObj kvs \<Rightarrow> (case map_of kvs k of None \<Rightarrow> Inl (KeyError k) | Some x \<Rightarrow> Inr x)
      | _ \<Rightarrow> Inl TypeError)"

text \<open>
  \<open>for item in v\<close>: a list gives its elements, a dict its keys, a string its
  characters; the other values are not iterable.
\<close>

definition py_iter :: "json \<Rightarrow> error + json list" where
  "py_iter v =
     (case v of
        JArr xs \<Rightarrow> Inr xs
      | JObj kvs \<Rightarrow> Inr (map (\<lambda>kv. JStr (fst kv)) kvs)
      | JStr s \<Rightarrow> Inr (map (\<lambda>c. JStr [c]) s)
      | _ \<Rightarrow> Inl TypeError)"

text \<open>
  \<open>v in keep\<close> for a set of strings: the value is hashed first, so a list or a dict
  raises; a scalar that is not a string equals no member.
\<close>

definition py_in :: "json \<Rightarrow> string set \<Rightarrow> error + bool" where
  "py_in v keep =
     (case v of
        JStr s \<Rightarrow> Inr (s \<in> keep)
      | JArr _ \<Rightarrow> Inl TypeError
      | JObj _ \<Rightarrow> Inl TypeError
      | _ \<Rightarrow> Inr False)"

text \<open>
  An f-string field: a string is inserted as it is, any other value through
  Python's \<open>str\<close>, which the model takes as a parameter.
\<close>

definition py_format :: "(json \<Rightarrow> string) \<Rightarrow> json \<Rightarrow> string" where
  "py_format str_of v = (case v of JStr s \<Rightarrow> s | _ \<Rightarrow> str_of v)"

section \<open>The store, the remote API and the world\<close>

datatype http_method = GET | PUT | DELETE

record request =
  meth :: http_method
  url :: string
  req_headers :: "(string \<times> string) list"
  data :: "(string \<times> json) list option"
  timeout :: "nat option"

text \<open>
  \<open>data\<close> is the dictionary handed to \<open>json.dumps\<close>, kept as a dictionary.
  A response is its status code and its body (\<open>resp.text\<close>).
\<close>

record response =
  status_code :: int
  body :: string

text \<open>\<open>Response.ok\<close>: \<open>raise_for_status\<close> raises for the codes from 400 to 599.\<close>

definition ok :: "response \<Rightarrow> bool" where
  "ok r = (\<not> (400 \<le> status_code r \<and> status_code r < 600))"

datatype event = Acquire | Release | Sent request "error + response"

text \<open>
  What the program runs against. \<open>answer\<close> is the reply of the remote in a given
  state (\<open>Inl\<close>: the request raised, a transport failure); \<open>commit\<close> is what a PUT or a
  DELETE does to the remote state. A GET is answered from the state and leaves it as
  it is. \<open>fs\<close> is the local file system, \<open>gmtime\<close> the successive readings of the
  clock, \<open>loads\<close> the JSON parser behind \<open>Response.json\<close>, \<open>str_of\<close> Python's \<open>str\<close>
  on parsed values that are not strings.
\<close>

record 's runtime =
  answer :: "'s \<Rightarrow> request \<Rightarrow> error + response"
  commit :: "'s \<Rightarrow> request \<Rightarrow> 's"
  fs :: "string \<Rightarrow> fnode"
  gmtime :: "nat \<Rightarrow> struct_time"
  loads :: "string \<Rightarrow> json option"
  str_of :: "json \<Rightarrow> string"

text \<open>
  The mutable part: the remote, the free permits of the semaphore, the number of
  clock readings taken so far, and the trace of requests and gate events, oldest
  first.
\<close>

record 's world =
  remote :: 's
  permits :: nat
  clock_reads :: nat
  trace :: "event list"

text \<open>A call returns, raises, or never returns (it waits for a permit).\<close>

datatype 'a outcome = Returns 'a | Raises error | Blocks

record store =
  owner :: string
  repo :: string
  branch :: string
  subdir :: string
  token :: string
  custom_cdn :: "string option"
  sema_value :: nat
  headers :: "(string \<times> string) list"

definition send :: "'s runtime \<Rightarrow> request \<Rightarrow> 's world \<Rightarrow> (error + response) \<times> 's world" where
  "send rt req w =
     (let reply = answer rt (remote w) req
      in (reply,
          w\<lparr>remote := (if meth req = GET then remote w else commit rt (remote w) req),
            trace := trace w @ [Sent req reply]\<rparr>))"

text \<open>Entering and leaving \<open>with self._sema\<close>.\<close>

definition acquire :: "'s world \<Rightarrow> 's world option" where
  "acquire w =
     (if permits w = 0 then None
      else Some (w\<lparr>permits := permits w - 1, trace := trace w @ [Acquire]\<rparr>))"

definition release :: "'s world \<Rightarrow> 's world" where
  "release w = w\<lparr>permits := permits w + 1, trace := trace w @ [Release]\<rparr>"

definition read_clock :: "'s runtime \<Rightarrow> 's world \<Rightarrow> struct_time \<times> 's world" where
  "read_clock rt w = (gmtime rt (clock_reads w), w\<lparr>clock_reads := clock_reads w + 1\<rparr>)"

text \<open>\<open>r.json()["sha"]\<close>.\<close>

definition json_sha :: "'s runtime \<Rightarrow> response \<Rightarrow> error + json" where
  "json_sha rt r =
     (case loads rt (body r) of None \<Rightarrow> Inl JSONDecodeError | Some v \<Rightarrow> getitem v ''sha'')"

section \<open>GitHubImageHost\<close>

subsection \<open>\<open>__init__\<close>\<close>

record init_args =
  arg_owner :: string
  arg_repo :: string
  arg_branch :: string
  arg_subdir :: string
  arg_token :: "string option"
  arg_custom_cdn :: "string option"
  arg_max_concurrency :: int

definition default_args :: "string \<Rightarrow> string \<Rightarrow> init_args" where
  "default_args ow rp =
     \<lparr>arg_owner = ow, arg_repo = rp, arg_branch = ''main'', arg_subdir = ''img/'',
      arg_token = None, arg_custom_cdn = None, arg_max_concurrency = 4\<rparr>"

text \<open>\<open>d.strip("/") + "/" if d else ""\<close>.\<close>

definition normalize_dir :: "string \<Rightarrow> string" where
  "normalize_dir d = (if d \<noteq> [] then strip CHR ''/'' d @ ''/'' else [])"

definition missing_pat_msg :: string where
  "missing_pat_msg =
     [CHR 0xE7, CHR 0xBC, CHR 0xBA, CHR 0xE5, CHR 0xB0, CHR 0x91] @ '' GitHub PAT'' @
     [CHR 0xEF, CHR 0xBC, CHR 0x8C, CHR 0xE8, CHR 0xAF, CHR 0xB7, CHR 0xE8, CHR 0xAE,
      CHR 0xBE, CHR 0xE7, CHR 0xBD, CHR 0xAE] @ '' token '' @
     [CHR 0xE6, CHR 0x88, CHR 0x96, CHR 0xE7, CHR 0x8E, CHR 0xAF, CHR 0xE5, CHR 0xA2,
      CHR 0x83, CHR 0xE5, CHR 0x8F, CHR 0x98, CHR 0xE9, CHR 0x87, CHR 0x8F] @
     '' GITHUB_PAT''"

text \<open>\<open>token or os.getenv("GITHUB_PAT")\<close>; \<open>env\<close> is the value of the variable.\<close>

definition resolve_token :: "string option \<Rightarrow> string option \<Rightarrow> string option" where
  "resolve_token tok env =
     (case tok of None \<Rightarrow> env | Some t \<Rightarrow> if t \<noteq> [] then Some t else env)"

definition make_headers :: "string \<Rightarrow> (string \<times> string) list" where
  "make_headers t =
     [(''Authorization'', ''Bearer '' @ t),
      (''Accept'', ''application/vnd.github+json''),
      (''X-GitHub-Api-Version'', ''2022-11-28'')]"

text \<open>
  The constructor. A missing token raises \<open>RuntimeError\<close>; \<open>threading.Semaphore\<close>
  raises \<open>ValueError\<close> on a negative initial value.
\<close>

definition init :: "string option \<Rightarrow> init_args \<Rightarrow> error + store" where
  "init env a =
     (case resolve_token (arg_token a) env of
        None \<Rightarrow> Inl (RuntimeError missing_pat_msg)
      | Some t \<Rightarrow>
          if t = [] then Inl (RuntimeError missing_pat_msg)
          else if arg_max_concurrency a < 0 then Inl ValueError
          else Inr \<lparr>owner = arg_owner a, repo = arg_repo a, branch = arg_branch a,
                    subdir = normalize_dir (arg_subdir a), token = t,
                    custom_cdn = arg_custom_cdn a,
                    sema_value = nat (arg_max_concurrency a),
                    headers = make_headers t\<rparr>)"

definition new_world :: "store \<Rightarrow> 's \<Rightarrow> 's world" where
  "new_world st s = \<lparr>remote = s, permits = sema_value st, clock_reads = 0, trace = []\<rparr>"

subsection \<open>URLs\<close>

definition api_url :: "store \<Rightarrow> string \<Rightarrow> string" where
  "api_url st path =
     ''https://api.github.com/repos/'' @ owner st @ ''/'' @ repo st @ ''/contents/'' @ path"

definition cdn_url :: "store \<Rightarrow> string \<Rightarrow> string" where
  "cdn_url st filename =
     (let rel = lstrip CHR ''/'' (subdir st @ filename)
      in case custom_cdn st of
           None \<Rightarrow>
             ''https://cdn.jsdelivr.net/gh/'' @ owner st @ ''/'' @ repo st @ ''@'' @
             branch st @ ''/'' @ rel
         | Some c \<Rightarrow>
             if c \<noteq> [] then rstrip CHR ''/'' c @ ''/'' @ rel
             else ''https://cdn.jsdelivr.net/gh/'' @ owner st @ ''/'' @ repo st @ ''@'' @
                  branch st @ ''/'' @ rel)"


definition get_request :: "store \<Rightarrow> string \<Rightarrow> request" where
  "get_request st path =
     \<lparr>meth = GET, url = api_url st path, req_headers = headers st, data = None,
      timeout = None\<rparr>"

subsection \<open>\<open>_ensure_dir\<close>\<close>

definition gitkeep_request :: "store \<Rightarrow> request" where
  "gitkeep_request st =
     \<lparr>meth = PUT, url = api_url st (subdir st @ ''.gitkeep''), req_headers = headers st,
      data = Some [(''message'', JStr ''init dir''), (''content'', JStr (b64encode [])),
                   (''branch'', JStr (branch st))],
      timeout = None\<rparr>"

definition ensure_dir :: "store \<Rightarrow> 's runtime \<Rightarrow> 's world \<Rightarrow> unit outcome \<times> 's world" where
  "ensure_dir st rt w =
     (if subdir st = [] then (Returns (), w)
      else
        (case send rt (get_request st (subdir st)) w of
           (Inl e, w1) \<Rightarrow> (Raises e, w1)
         | (Inr r, w1) \<Rightarrow>
             if ok r then (Returns (), w1)
             else
               (case send rt (gitkeep_request st) w1 of
                  (Inl e, w2) \<Rightarrow> (Raises e, w2)
                | (Inr _, w2) \<Rightarrow> (Returns (), w2))))"

subsection \<open>\<open>upload\<close>\<close>

definition create_request :: "store \<Rightarrow> string \<Rightarrow> string \<Rightarrow> request" where
  "create_request st filename content_b64 =
     \<lparr>meth = PUT, url = api_url st (subdir st @ filename), req_headers = headers st,
      data = Some [(''message'', JStr (''upload '' @ filename)),
                   (''content'', JStr content_b64), (''branch'', JStr (branch st))],
      timeout = Some 30\<rparr>"

definition renamed :: "string \<Rightarrow> struct_time \<Rightarrow> string" where
  "renamed file_path t = path_stem file_path @ ''-'' @ strftime t @ path_suffix file_path"

text \<open>
  The body of \<open>with self._sema\<close> in \<open>upload\<close>, up to the test of \<open>resp.ok\<close>: the
  create, and after a 422 the second create under the new name. It gives the last
  reply and the file name in force.
\<close>

definition upload_put ::
  "store \<Rightarrow> 's runtime \<Rightarrow> string \<Rightarrow> string \<Rightarrow> 's world \<Rightarrow>
   ((error + response) \<times> string) \<times> 's world" where
  "upload_put st rt file_path content_b64 w =
     (let filename = path_name file_path
      in case send rt (create_request st filename content_b64) w of
           (Inl e, w1) \<Rightarrow> ((Inl e, filename), w1)
         | (Inr resp, w1) \<Rightarrow>
             if status_code resp = 422 then
               (case read_clock rt w1 of
                  (t, w2) \<Rightarrow>
                    (case send rt (create_request st (renamed file_path t) content_b64) w2 of
                       (reply, w3) \<Rightarrow> ((reply, renamed file_path t), w3)))
             else ((Inr resp, filename), w1))"

definition upload :: "store \<Rightarrow> 's runtime \<Rightarrow> string \<Rightarrow> 's world \<Rightarrow> string outcome \<times> 's world" where
  "upload st rt file_path w =
     (case ensure_dir st rt w of
        (Raises e, w1) \<Rightarrow> (Raises e, w1)
      | (Blocks, w1) \<Rightarrow> (Blocks, w1)
      | (Returns _, w1) \<Rightarrow>
          if \<not> is_file (fs rt file_path) then (Raises (FileNotFoundError file_path), w1)
          else
            (case read_bytes file_path (fs rt file_path) of
               Inl e \<Rightarrow> (Raises e, w1)
             | Inr bs \<Rightarrow>
                 (case acquire w1 of
                    None \<Rightarrow> (Blocks, w1)
                  | Some w2 \<Rightarrow>
                      (case upload_put st rt file_path (b64encode bs) w2 of
                         ((Inl e, filename), w3) \<Rightarrow> (Raises e, release w3)
                       | ((Inr resp, filename), w3) \<Rightarrow>
                           if \<not> ok resp then (Raises (RuntimeError (body resp)), release w3)
                           else (Returns (cdn_url st filename), release w3)))))"

subsection \<open>\<open>delete\<close>\<close>

definition delete_request :: "store \<Rightarrow> string \<Rightarrow> string \<Rightarrow> json \<Rightarrow> request" where
  "delete_request st path label sha =
     \<lparr>meth = DELETE, url = api_url st path, req_headers = headers st,
      data = Some [(''message'', JStr (''delete '' @ label)), (''sha'', sha),
                   (''branch'', JStr (branch st))],
      timeout = None\<rparr>"

definition delete :: "store \<Rightarrow> 's runtime \<Rightarrow> string \<Rightarrow> 's world \<Rightarrow> unit outcome \<times> 's world" where
  "delete st rt filename w =
     (case send rt (get_request st (subdir st @ filename)) w of
        (Inl e, w1) \<Rightarrow> (Raises e, w1)
      | (Inr r, w1) \<Rightarrow>
          if status_code r = 404 then (Returns (), w1)
          else
            (case json_sha rt r of
               Inl e \<Rightarrow> (Raises e, w1)
             | Inr sha \<Rightarrow>
                 (case acquire w1 of
                    None \<Rightarrow> (Blocks, w1)
                  | Some w2 \<Rightarrow>
                      (case send rt (delete_request st (subdir st @ filename) filename sha) w2 of
                         (Inl e, w3) \<Rightarrow> (Raises e, release w3)
                       | (Inr resp, w3) \<Rightarrow>
                           if \<not> ok resp then (Raises (RuntimeError (body resp)), release w3)
                           else (Returns (), release w3)))))"

subsection \<open>\<open>update\<close>\<close>

definition update_request :: "store \<Rightarrow> string \<Rightarrow> string \<Rightarrow> json \<Rightarrow> request" where
  "update_request st name content_b64 sha =
     \<lparr>meth = PUT, url = api_url st (subdir st @ name), req_headers = headers st,
      data = Some [(''message'', JStr (''update '' @ name)), (''content'', JStr content_b64),
                   (''sha'', sha), (''branch'', JStr (branch st))],
      timeout = None\<rparr>"

text \<open>\<open>filename or p.name\<close>.\<close>

definition target_name :: "string \<Rightarrow> string option \<Rightarrow> string" where
  "target_name file_path filename =
     (case filename of
        None \<Rightarrow> path_name file_path
      | Some n \<Rightarrow> if n \<noteq> [] then n else path_name file_path)"

definition update ::
  "store \<Rightarrow> 's runtime \<Rightarrow> string \<Rightarrow> string option \<Rightarrow> 's world \<Rightarrow> string outcome \<times> 's world" where
  "update st rt file_path filename w =
     (case ensure_dir st rt w of
        (Raises e, w1) \<Rightarrow> (Raises e, w1)
      | (Blocks, w1) \<Rightarrow> (Blocks, w1)
      | (Returns _, w1) \<Rightarrow>
          (let name = target_name file_path filename
           in case send rt (get_request st (subdir st @ name)) w1 of
                (Inl e, w2) \<Rightarrow> (Raises e, w2)
              | (Inr r, w2) \<Rightarrow>
                  if \<not> ok r then (Raises (FileNotFoundError name), w2)
                  else
                    (case json_sha rt r of
                       Inl e \<Rightarrow> (Raises e, w2)
                     | Inr sha \<Rightarrow>
                         (case read_bytes file_path (fs rt file_path) of
                            Inl e \<Rightarrow> (Raises e, w2)
                          | Inr bs \<Rightarrow>
                              (case acquire w2 of
                                 None \<Rightarrow> (Blocks, w2)
                               | Some w3 \<Rightarrow>
                                   (case send rt (update_request st name (b64encode bs) sha) w3 of
                                      (Inl e, w4) \<Rightarrow> (Raises e, release w4)
                                    | (Inr resp, w4) \<Rightarrow>
                                        if \<not> ok resp
                                        then (Raises (RuntimeError (body resp)), release w4)
                                        else (Returns (cdn_url st name), release w4)))))))"

subsection \<open>\<open>exists\<close>\<close>

definition exists :: "store \<Rightarrow> 's runtime \<Rightarrow> string \<Rightarrow> 's world \<Rightarrow> bool outcome \<times> 's world" where
  "exists st rt filename w =
     (case send rt (get_request st (subdir st @ filename)) w of
        (Inl e, w1) \<Rightarrow> (Raises e, w1)
      | (Inr r, w1) \<Rightarrow> (Returns (ok r), w1))"

subsection \<open>\<open>clear_dir\<close>\<close>

definition cannot_read_dir_msg :: string where
  "cannot_read_dir_msg =
     [CHR 0xE6, CHR 0x97, CHR 0xA0, CHR 0xE6, CHR 0xB3, CHR 0x95, CHR 0xE8, CHR 0xAF,
      CHR 0xBB, CHR 0xE5, CHR 0x8F, CHR 0x96, CHR 0xE7, CHR 0x9B, CHR 0xAE, CHR 0xE5,
      CHR 0xBD, CHR 0x95] @ '': ''"

text \<open>
  One entry of the listing that passed both tests: the body is built, the permit
  taken, the URL built from \<open>item["path"]\<close> inside the \<open>with\<close>, the delete sent.
\<close>

definition delete_item ::
  "store \<Rightarrow> 's runtime \<Rightarrow> json \<Rightarrow> json \<Rightarrow> 's world \<Rightarrow> unit outcome \<times> 's world" where
  "delete_item st rt item name w =
     (case getitem item ''sha'' of
        Inl e \<Rightarrow> (Raises e, w)
      | Inr sha \<Rightarrow>
          (case acquire w of
             None \<Rightarrow> (Blocks, w)
           | Some w1 \<Rightarrow>
               (case getitem item ''path'' of
                  Inl e \<Rightarrow> (Raises e, release w1)
                | Inr path \<Rightarrow>
                    (case send rt (delete_request st (py_format (str_of rt) path)
                                     (py_format (str_of rt) name) sha) w1 of
                       (Inl e, w2) \<Rightarrow> (Raises e, release w2)
                     | (Inr resp, w2) \<Rightarrow>
                         if \<not> ok resp then (Raises (RuntimeError (body resp)), release w2)
                         else (Returns (), release w2)))))"

text \<open>The \<open>for\<close> loop of \<open>clear_dir\<close>, with the counter \<open>deleted\<close>.\<close>

fun clear_loop ::
  "store \<Rightarrow> 's runtime \<Rightarrow> string set \<Rightarrow> json list \<Rightarrow> int \<Rightarrow> 's world \<Rightarrow> int outcome \<times> 's world" where
  "clear_loop st rt keep [] deleted w = (Returns deleted, w)"
| "clear_loop st rt keep (item # items) deleted w =
     (case getitem item ''type'' of
        Inl e \<Rightarrow> (Raises e, w)
      | Inr t \<Rightarrow>
          if t \<noteq> JStr ''file'' then clear_loop st rt keep items deleted w
          else
            (case getitem item ''name'' of
               Inl e \<Rightarrow> (Raises e, w)
             | Inr name \<Rightarrow>
                 (case py_in name keep of
                    Inl e \<Rightarrow> (Raises e, w)
                  | Inr True \<Rightarrow> clear_loop st rt keep items deleted w
                  | Inr False \<Rightarrow>
                      (case delete_item st rt item name w of
                         (Raises e, w1) \<Rightarrow> (Raises e, w1)
                       | (Blocks, w1) \<Rightarrow> (Blocks, w1)
                       | (Returns _, w1) \<Rightarrow> clear_loop st rt keep items (deleted + 1) w1))))"

definition target_dir :: "store \<Rightarrow> string option \<Rightarrow> string" where
  "target_dir st dir_path =
     (case dir_path of
        None \<Rightarrow> subdir st
      | Some d \<Rightarrow> if d \<noteq> [] then strip CHR ''/'' d @ ''/'' else subdir st)"

definition keep_set :: "string set option \<Rightarrow> string set" where
  "keep_set keep = (case keep of None \<Rightarrow> {} | Some k \<Rightarrow> k)"

definition clear_dir ::
  "store \<Rightarrow> 's runtime \<Rightarrow> string set option \<Rightarrow> string option \<Rightarrow> 's world \<Rightarrow>
   int outcome \<times> 's world" where
  "clear_dir st rt keep dir_path w =
     (case send rt (get_request st (target_dir st dir_path)) w of
        (Inl e, w1) \<Rightarrow> (Raises e, w1)
      | (Inr r, w1) \<Rightarrow>
          if \<not> ok r
          then (Raises (RuntimeError (cannot_read_dir_msg @ target_dir st dir_path)), w1)
          else
            (case loads rt (body r) of
               None \<Rightarrow> (Raises JSONDecodeError, w1)
             | Some v \<Rightarrow>
                 (case py_iter v of
                    Inl e \<Rightarrow> (Raises e, w1)
                  | Inr items \<Rightarrow> clear_loop st rt (keep_set keep) items 0 w1)))"

subsection \<open>Batch operations\<close>



fun delete_many ::
  "store \<Rightarrow> 's runtime \<Rightarrow> string list \<Rightarrow> 's world \<Rightarrow> unit outcome \<times> 's world" where
  "delete_many st rt [] w = (Returns (), w)"
| "delete_many st rt (f # filenames) w =
     (case delete st rt f w of
        (Raises e, w1) \<Rightarrow> (Raises e, w1)
      | (Blocks, w1) \<Rightarrow> (Blocks, w1)
      | (Returns _, w1) \<Rightarrow> delete_many st rt filenames w1)"

fun update_loop ::
  "store \<Rightarrow> 's runtime \<Rightarrow> (string \<times> string) list \<Rightarrow> (string \<rightharpoonup> string) \<Rightarrow> 's world \<Rightarrow>
   (string \<rightharpoonup> string) outcome \<times> 's world" where
  "update_loop st rt [] acc w = (Returns acc, w)"
| "update_loop st rt ((src, dst) # files) acc w =
     (case update st rt src (Some dst) w of
        (Raises e, w1) \<Rightarrow> (Raises e, w1)
      | (Blocks, w1) \<Rightarrow> (Blocks, w1)
      | (Returns u, w1) \<Rightarrow> update_loop st rt files (acc(src \<mapsto> u)) w1)"

definition update_many ::
  "store \<Rightarrow> 's runtime \<Rightarrow> (string \<times> string) list \<Rightarrow> 's world \<Rightarrow>
   (string \<rightharpoonup> string) outcome \<times> 's world" where
  "update_many st rt files w = update_loop st rt files Map.empty w"

section \<open>Reading a trace\<close>

text \<open>The events a call added to the trace.\<close>

definition new_events :: "'s world \<Rightarrow> 's world \<Rightarrow> event list" where
  "new_events w w' = drop (length (trace w)) (trace w')"

fun exchanges :: "event list \<Rightarrow> (request \<times> (error + response)) list" where
  "exchanges [] = []"
| "exchanges (Sent q reply # es) = (q, reply) # exchanges es"
| "exchanges (Acquire # es) = exchanges es"
| "exchanges (Release # es) = exchanges es"

definition is_write :: "request \<Rightarrow> bool" where
  "is_write q = (meth q \<noteq> GET)"

definition writes_of :: "event list \<Rightarrow> request list" where
  "writes_of es = filter is_write (map fst (exchanges es))"

text \<open>
  The writes sent while the call holds no permit; \<open>d\<close> is the number of permits held
  at the start of the events.
\<close>

fun ungated_writes :: "nat \<Rightarrow> event list \<Rightarrow> request list" where
  "ungated_writes d [] = []"
| "ungated_writes d (Acquire # es) = ungated_writes (Suc d) es"
| "ungated_writes d (Release # es) = ungated_writes (d - 1) es"
| "ungated_writes d (Sent q reply # es) =
     (if is_write q \<and> d = 0 then q # ungated_writes d es else ungated_writes d es)"

text \<open>
  The directory probe of \<open>_ensure_dir\<close> was answered and not with success: the case
  in which the placeholder is created.
\<close>

definition dir_missing :: "store \<Rightarrow> 's runtime \<Rightarrow> 's world \<Rightarrow> bool" where
  "dir_missing st rt w =
     (subdir st \<noteq> [] \<and>
      (case answer rt (remote w) (get_request st (subdir st)) of
         Inl _ \<Rightarrow> False | Inr d \<Rightarrow> \<not> ok d))"

section \<open>Example stores and runtimes\<close>

definition example_args :: init_args where
  "example_args = (default_args ''o'' ''r'')\<lparr>arg_token := Some ''t''\<rparr>"

definition st_img :: store where
  "st_img =
     \<lparr>owner = ''o'', repo = ''r'', branch = ''main'', subdir = ''img/'', token = ''t'',
      custom_cdn = None, sema_value = 4, headers = make_headers ''t''\<rparr>"

definition st_root :: store where
  "st_root = st_img\<lparr>subdir := []\<rparr>"

definition t0 :: struct_time where
  "t0 = \<lparr>tm_year = 2024, tm_mon = 3, tm_mday = 9, tm_hour = 7, tm_min = 5, tm_sec = 0\<rparr>"

definition local_files :: "string \<Rightarrow> fnode" where
  "local_files p =
     (if p = ''pics/a.png'' then RegularFile [1, 2, 3]
      else if p = ''pics/b.png'' then RegularFile [4]
      else NoEntry)"

text \<open>
  A runtime whose remote answers by a given function of the request; its state
  counts the writes it has received.
\<close>

definition scripted :: "(nat \<Rightarrow> request \<Rightarrow> error + response) \<Rightarrow> (string \<Rightarrow> json option) \<Rightarrow> nat runtime" where
  "scripted f parse =
     \<lparr>answer = f, commit = (\<lambda>s q. Suc s), fs = local_files, gmtime = (\<lambda>n. t0),
      loads = parse, str_of = (\<lambda>v. ''?'')\<rparr>"

definition reply :: "int \<Rightarrow> string \<Rightarrow> error + response" where
  "reply code txt = Inr \<lparr>status_code = code, body = txt\<rparr>"

text \<open>A remote on which nothing exists: every GET is answered 404, every write 201.\<close>

definition rt_absent :: "nat runtime" where
  "rt_absent =
     scripted (\<lambda>s q. if meth q = GET then reply 404 ''Not Found'' else reply 201 ''Created'')
       (\<lambda>b. None)"










text \<open>
  A remote that answers every request 500, and one on which every file exists with
  the \<open>sha\<close> \<open>abc\<close> and every write is refused with 403.
\<close>

definition rt_500 :: "nat runtime" where
  "rt_500 = scripted (\<lambda>s q. reply 500 ''server error'') (\<lambda>b. None)"

definition rt_reject :: "nat runtime" where
  "rt_reject =
     scripted (\<lambda>s q. if meth q = GET then reply 200 ''file'' else reply 403 ''forbidden'')
       (\<lambda>b. if b = ''file'' then Some (JObj [(''sha'', JStr ''abc'')]) else None)"

section \<open>Basic facts\<close>

lemmas str_defs = strip_def lstrip_def rstrip_def

lemmas init_defs = init_def example_args_def default_args_def resolve_token_def normalize_dir_def

lemmas ex_defs = rt_absent_def scripted_def reply_def new_world_def st_img_def st_root_def
  local_files_def

lemma init_example: "init None example_args = Inr st_img"
  by (simp add: init_defs st_img_def str_defs)

lemma send_eq:
  "send rt q w =
     (answer rt (remote w) q,
      w\<lparr>remote := (if meth q = GET then remote w else commit rt (remote w) q),
        trace := trace w @ [Sent q (answer rt (remote w) q)]\<rparr>)"
  by (simp add: send_def Let_def)

lemma meth_get_request [simp]: "meth (get_request st p) = GET"
  by (simp add: get_request_def)

lemma meth_gitkeep [simp]: "meth (gitkeep_request st) = PUT"
  by (simp add: gitkeep_request_def)

lemma new_events_append: "trace w' = trace w @ es \<Longrightarrow> new_events w w' = es"
  by (simp add: new_events_def)

lemma exchanges_append [simp]: "exchanges (xs @ ys) = exchanges xs @ exchanges ys"
  by (induction xs rule: exchanges.induct) simp_all

lemma writes_of_append [simp]: "writes_of (xs @ ys) = writes_of xs @ writes_of ys"
  by (simp add: writes_of_def)

lemma writes_of_get [simp]: "writes_of [Sent (get_request st p) rep] = []"
  by (simp add: writes_of_def is_write_def)

lemma ensure_dir_returns:
  assumes "ensure_dir st rt w = (Returns (), w1)"
  shows "trace w1 = trace w @ new_events w w1
       \<and> writes_of (new_events w w1) = (if dir_missing st rt w then [gitkeep_request st] else [])
       \<and> clock_reads w1 = clock_reads w \<and> permits w1 = permits w"
  using assms
  by (auto simp: ensure_dir_def send_eq dir_missing_def writes_of_def is_write_def new_events_def
      split: if_splits sum.splits)

section \<open>Construction\<close>

text \<open>
  What the normalization does on an input with a character other than the
  separator: the stored subdirectory is the stripped input and one separator.
\<close>

lemma normalize_dir_examples:
  "normalize_dir ''img'' = ''img/''" "normalize_dir ''/img/'' = ''img/''"
  "normalize_dir ''img/'' = ''img/''" "normalize_dir [] = []"
  by (simp_all add: normalize_dir_def str_defs)

lemma dropWhile_hd: "dropWhile P xs \<noteq> [] \<Longrightarrow> \<not> P (hd (dropWhile P xs))"
  by (metis hd_dropWhile)

lemma strip_edges:
  assumes "\<exists>x\<in>set d. x \<noteq> c"
  shows "strip c d \<noteq> [] \<and> hd (strip c d) \<noteq> c \<and> last (strip c d) \<noteq> c"
proof -
  let ?l = "dropWhile (\<lambda>x. x = c) d"
  let ?r = "dropWhile (\<lambda>x. x = c) (rev ?l)"
  from assms have l: "?l \<noteq> []" by (auto simp: dropWhile_eq_Nil_conv)
  then have hl: "hd ?l \<noteq> c" using dropWhile_hd [of "\<lambda>x. x = c" d] by simp
  have "\<exists>x\<in>set (rev ?l). x \<noteq> c"
    using l hl by (metis hd_in_set set_rev)
  then have r: "?r \<noteq> []" by (auto simp: dropWhile_eq_Nil_conv)
  then have hr: "hd ?r \<noteq> c" using dropWhile_hd [of "\<lambda>x. x = c" "rev ?l"] by simp
  have s: "strip c d = rev ?r" by (simp add: str_defs)
  have la: "last (rev ?r) \<noteq> c" using r hr by (simp add: last_rev)
  have "hd (rev ?r) = hd ?l"
  proof -
    have "rev ?l = takeWhile (\<lambda>x. x = c) (rev ?l) @ ?r"
      by simp
    then have "?l = rev ?r @ rev (takeWhile (\<lambda>x. x = c) (rev ?l))"
      by (metis rev_append rev_rev_ident)
    then have "hd ?l = hd (rev ?r @ rev (takeWhile (\<lambda>x. x = c) (rev ?l)))" by simp
    also have "\<dots> = hd (rev ?r)" using r by simp
    finally show ?thesis by simp
  qed
  with hl have "hd (rev ?r) \<noteq> c" by simp
  with r la s show ?thesis by simp
qed

lemma normalize_dir_shape:
  assumes "\<exists>x\<in>set d. x \<noteq> CHR ''/''"
  shows "\<exists>s. normalize_dir d = s @ ''/'' \<and> s \<noteq> [] \<and> hd s \<noteq> CHR ''/'' \<and> last s \<noteq> CHR ''/''"
  using strip_edges [OF assms] assms by (auto simp: normalize_dir_def)

text \<open>
  C3. The subdirectory given at construction is stored normalized: empty, or ending
  with exactly one separator and not starting with one. The constructor tests the
  input as given, not the stripped one: the input \<open>/\<close> is stored as \<open>/\<close>, which starts
  with a separator.
\<close>

theorem normalize_dir_slash:
  "init None (example_args\<lparr>arg_subdir := ''/''\<rparr>) = Inr (st_img\<lparr>subdir := ''/''\<rparr>)
   \<and> hd (subdir (st_img\<lparr>subdir := ''/''\<rparr>)) = CHR ''/''"
  by (simp add: init_defs st_img_def str_defs)


section \<open>CDN URLs\<close>




section \<open>Deleting and updating a file that does not exist\<close>

text \<open>
  C4. When the lookup of \<open>delete\<close> is answered 404, the call returns normally, the
  lookup is the only request it sends, it sends no write, and the remote is left as
  it was.
\<close>

theorem delete_absent:
  assumes "answer rt (remote w) (get_request st (subdir st @ filename)) = Inr r"
    and "status_code r = 404"
  shows "fst (delete st rt filename w) = Returns ()
     \<and> remote (snd (delete st rt filename w)) = remote w
     \<and> new_events w (snd (delete st rt filename w)) =
         [Sent (get_request st (subdir st @ filename)) (Inr r)]
     \<and> writes_of (new_events w (snd (delete st rt filename w))) = []"
  using assms
  by (simp add: delete_def send_eq new_events_def writes_of_def is_write_def)

theorem delete_absent_witness:
  "answer rt_absent (remote (new_world st_img 0)) (get_request st_img (subdir st_img @ ''a.png''))
     = Inr \<lparr>status_code = 404, body = ''Not Found''\<rparr>
   \<and> status_code \<lparr>status_code = 404, body = ''Not Found''\<rparr> = 404
   \<and> fst (delete st_img rt_absent ''a.png'' (new_world st_img 0)) = Returns ()
   \<and> remote (snd (delete st_img rt_absent ''a.png'' (new_world st_img 0))) = 0
   \<and> writes_of (new_events (new_world st_img 0)
        (snd (delete st_img rt_absent ''a.png'' (new_world st_img 0)))) = []"
proof -
  have a: "answer rt_absent (remote (new_world st_img 0))
             (get_request st_img (subdir st_img @ ''a.png''))
           = Inr \<lparr>status_code = 404, body = ''Not Found''\<rparr>"
    by (simp add: ex_defs)
  have b: "status_code \<lparr>status_code = 404, body = ''Not Found''\<rparr> = 404"
    by simp
  from delete_absent [OF a b] a show ?thesis
    by (simp add: new_world_def)
qed

text \<open>
  C5, as the spec states it: an update of a file that does not exist remotely sends
  no write. It fails when the subdirectory does not exist either: \<open>update\<close> starts
  with \<open>_ensure_dir\<close>, which creates the placeholder.
\<close>

theorem update_absent_counterexample:
  "fst (update st_img rt_absent ''pics/a.png'' None (new_world st_img 0))
     = Raises (FileNotFoundError ''a.png'')
   \<and> writes_of (trace (snd (update st_img rt_absent ''pics/a.png'' None (new_world st_img 0))))
       = [gitkeep_request st_img]"
  by (simp add: update_def ensure_dir_def send_eq Let_def ex_defs ok_def target_name_def
      path_name_def path_parts_def writes_of_def is_write_def get_request_def gitkeep_request_def)

text \<open>
  C5, amended. When \<open>_ensure_dir\<close> has returned and the lookup of the target is
  answered without success, \<open>update\<close> raises \<open>FileNotFoundError\<close> with the target
  name; it sends no write for the target, and the only write of the whole call is the
  placeholder of \<open>_ensure_dir\<close>, sent exactly when the store has a subdirectory whose
  probe was answered without success.
\<close>

theorem update_absent:
  assumes "ensure_dir st rt w = (Returns (), w1)"
    and "answer rt (remote w1) (get_request st (subdir st @ target_name fp fn)) = Inr r"
    and "\<not> ok r"
  shows "fst (update st rt fp fn w) = Raises (FileNotFoundError (target_name fp fn))
       \<and> writes_of (new_events w (snd (update st rt fp fn w))) =
           (if dir_missing st rt w then [gitkeep_request st] else [])"
proof -
  let ?g = "get_request st (subdir st @ target_name fp fn)"
  have u: "update st rt fp fn w =
             (Raises (FileNotFoundError (target_name fp fn)),
              w1\<lparr>trace := trace w1 @ [Sent ?g (Inr r)]\<rparr>)"
    using assms by (simp add: update_def send_eq Let_def)
  from ensure_dir_returns [OF assms(1)]
  have t: "trace w1 = trace w @ new_events w w1"
    and wr: "writes_of (new_events w w1) =
               (if dir_missing st rt w then [gitkeep_request st] else [])"
    by simp_all
  have "trace (w1\<lparr>trace := trace w1 @ [Sent ?g (Inr r)]\<rparr>) =
          trace w @ (new_events w w1 @ [Sent ?g (Inr r)])"
    using t by simp
  then have "new_events w (snd (update st rt fp fn w)) = new_events w w1 @ [Sent ?g (Inr r)]"
    unfolding u by (simp only: snd_conv new_events_append)
  moreover have "writes_of (new_events w w1 @ [Sent ?g (Inr r)]) = writes_of (new_events w w1)"
    by simp
  ultimately show ?thesis using u wr by simp
qed

theorem update_absent_witness:
  "ensure_dir st_root rt_absent (new_world st_root 0) = (Returns (), new_world st_root 0)
   \<and> answer rt_absent 0 (get_request st_root ''a.png'')
       = Inr \<lparr>status_code = 404, body = ''Not Found''\<rparr>
   \<and> \<not> ok \<lparr>status_code = 404, body = ''Not Found''\<rparr>
   \<and> fst (update st_root rt_absent ''pics/a.png'' None (new_world st_root 0))
       = Raises (FileNotFoundError ''a.png'')
   \<and> writes_of (new_events (new_world st_root 0)
        (snd (update st_root rt_absent ''pics/a.png'' None (new_world st_root 0)))) = []"
proof -
  have n: "target_name ''pics/a.png'' None = ''a.png''"
    by (simp add: target_name_def path_name_def path_parts_def)
  have e: "ensure_dir st_root rt_absent (new_world st_root 0) = (Returns (), new_world st_root 0)"
    by (simp add: ensure_dir_def ex_defs)
  have a: "answer rt_absent (remote (new_world st_root 0))
             (get_request st_root (subdir st_root @ target_name ''pics/a.png'' None))
           = Inr \<lparr>status_code = 404, body = ''Not Found''\<rparr>"
    by (simp add: n) (simp add: ex_defs)
  have k: "\<not> ok \<lparr>status_code = 404, body = ''Not Found''\<rparr>"
    by (simp add: ok_def)
  have d: "\<not> dir_missing st_root rt_absent (new_world st_root 0)"
    by (simp add: dir_missing_def ex_defs)
  from update_absent [OF e a k] d e a k show ?thesis
    by (simp add: n) (simp add: ex_defs)
qed




section \<open>Upload\<close>



lemmas path_defs = path_name_def path_parts_def path_stem_def path_suffix_def name_cut_def
  rfind_def

lemma a_png [simp]: "path_name ''pics/a.png'' = ''a.png''"
  "path_stem ''pics/a.png'' = ''a''" "path_suffix ''pics/a.png'' = ''.png''"
  by (simp_all add: path_defs)



section \<open>The gate\<close>

text \<open>
  What holds of the gate on every run, whatever the outcome: \<open>upload\<close>, \<open>update\<close>,
  \<open>delete\<close> and \<open>clear_dir\<close> leave as many free permits as they found, and send
  their own writes while they hold one; \<open>_ensure_dir\<close> takes no permit, and its
  placeholder is the one write sent without one.
\<close>

lemma delete_gate:
  "permits (snd (delete st rt f w)) = permits w
   \<and> ungated_writes 0 (new_events w (snd (delete st rt f w))) = []"
  by (auto simp: delete_def send_eq acquire_def release_def new_events_def is_write_def
      split: sum.splits option.splits if_splits)

lemma ensure_dir_gate:
  "permits (snd (ensure_dir st rt w)) = permits w
   \<and> (\<exists>es. trace (snd (ensure_dir st rt w)) = trace w @ es
        \<and> (\<forall>rest. ungated_writes 0 (es @ rest) =
             (if dir_missing st rt w then gitkeep_request st # ungated_writes 0 rest
              else ungated_writes 0 rest)))"
  by (auto simp: ensure_dir_def send_eq dir_missing_def is_write_def
      split: sum.splits option.splits if_splits)

lemma upload_gate:
  "permits (snd (upload st rt fp w)) = permits w
   \<and> ungated_writes 0 (new_events w (snd (upload st rt fp w))) =
       (if dir_missing st rt w then [gitkeep_request st] else [])"
proof -
  obtain out w1 where e: "ensure_dir st rt w = (out, w1)"
    by (cases "ensure_dir st rt w")
  from ensure_dir_gate [of st rt w] e obtain es where
    p: "permits w1 = permits w" and t: "trace w1 = trace w @ es" and
    g: "\<And>rest. ungated_writes 0 (es @ rest) =
             (if dir_missing st rt w then gitkeep_request st # ungated_writes 0 rest
              else ungated_writes 0 rest)"
    by auto
  have g0: "ungated_writes 0 es =
             (if dir_missing st rt w then [gitkeep_request st] else [])"
    using g [of "[]"] by simp
  show ?thesis
    using p g0
    by (auto simp: upload_def upload_put_def e t g send_eq acquire_def release_def
        read_clock_def new_events_def Let_def
        split: sum.splits option.splits if_splits outcome.splits prod.splits)
qed

lemma update_gate:
  "permits (snd (update st rt fp fn w)) = permits w
   \<and> ungated_writes 0 (new_events w (snd (update st rt fp fn w))) =
       (if dir_missing st rt w then [gitkeep_request st] else [])"
proof -
  obtain out w1 where e: "ensure_dir st rt w = (out, w1)"
    by (cases "ensure_dir st rt w")
  from ensure_dir_gate [of st rt w] e obtain es where
    p: "permits w1 = permits w" and t: "trace w1 = trace w @ es" and
    g: "\<And>rest. ungated_writes 0 (es @ rest) =
             (if dir_missing st rt w then gitkeep_request st # ungated_writes 0 rest
              else ungated_writes 0 rest)"
    by auto
  have g0: "ungated_writes 0 es =
             (if dir_missing st rt w then [gitkeep_request st] else [])"
    using g [of "[]"] by simp
  have nw: "\<not> is_write (get_request st x)" for x
    by (simp add: is_write_def)
  show ?thesis
    using p g0
    by (auto simp: update_def e t g nw send_eq acquire_def release_def
        new_events_def Let_def
        split: sum.splits option.splits if_splits outcome.splits prod.splits)
qed


lemma delete_item_gate:
  assumes "delete_item st rt item name w = (out, w1)"
  shows "permits w1 = permits w
       \<and> (\<exists>es. trace w1 = trace w @ es
             \<and> (\<forall>rest. ungated_writes 0 (es @ rest) = ungated_writes 0 rest))"
  using assms
  by (auto simp: delete_item_def send_eq acquire_def release_def
      split: sum.splits option.splits if_splits)

lemma clear_loop_gate:
  assumes "clear_loop st rt keep items d w = (out, w')"
  shows "permits w' = permits w
       \<and> (\<exists>es. trace w' = trace w @ es
             \<and> (\<forall>rest. ungated_writes 0 (es @ rest) = ungated_writes 0 rest))"
  using assms
proof (induction items arbitrary: d w)
  case Nil
  then have "trace w' = trace w @ []" "permits w' = permits w" by simp_all
  then show ?case by force
next
  case (Cons item items)
  have stop: ?case if "w' = w"
  proof -
    from that have "trace w' = trace w @ []" "permits w' = permits w" by simp_all
    then show ?thesis by force
  qed
  show ?case
  proof (cases "getitem item ''type''")
    case (Inl e)
    with Cons.prems show ?thesis by (intro stop) simp
  next
    case (Inr t)
    note t = this
    show ?thesis
    proof (cases "t = JStr ''file''")
      case False
      with Cons.prems t have "clear_loop st rt keep items d w = (out, w')" by simp
      from Cons.IH [OF this] show ?thesis .
    next
      case True
      note isfile = this
      show ?thesis
      proof (cases "getitem item ''name''")
        case (Inl e)
        with Cons.prems t isfile show ?thesis by (intro stop) simp
      next
        case (Inr name)
        note name = this
        show ?thesis
        proof (cases "py_in name keep")
          case (Inl e)
          with Cons.prems t isfile name show ?thesis by (intro stop) simp
        next
          case (Inr b)
          show ?thesis
          proof (cases b)
            case True
            with Cons.prems t isfile name Inr
            have "clear_loop st rt keep items d w = (out, w')" by simp
            from Cons.IH [OF this] show ?thesis .
          next
            case False
            obtain o1 w1 where di: "delete_item st rt item name w = (o1, w1)"
              by (cases "delete_item st rt item name w")
            from delete_item_gate [OF di] obtain es where
              p1: "permits w1 = permits w" and e1: "trace w1 = trace w @ es" and
              g1: "\<forall>rest. ungated_writes 0 (es @ rest) = ungated_writes 0 rest"
              by blast
            show ?thesis
            proof (cases o1)
              case (Returns u)
              with Cons.prems t isfile name Inr False di
              have rest: "clear_loop st rt keep items (d + 1) w1 = (out, w')" by simp
              from Cons.IH [OF rest] obtain es' where
                p2: "permits w' = permits w1" and e2: "trace w' = trace w1 @ es'" and
                g2: "\<forall>rest. ungated_writes 0 (es' @ rest) = ungated_writes 0 rest"
                by blast
              have "trace w' = trace w @ (es @ es')" using e1 e2 by simp
              moreover have "\<forall>rest. ungated_writes 0 ((es @ es') @ rest) = ungated_writes 0 rest"
                using g1 g2 by simp
              ultimately show ?thesis using p1 p2 by metis
            next
              case (Raises e)
              with Cons.prems t isfile name Inr False di have "w' = w1" by simp
              with p1 e1 g1 show ?thesis by blast
            next
              case Blocks
              with Cons.prems t isfile name Inr False di have "w' = w1" by simp
              with p1 e1 g1 show ?thesis by blast
            qed
          qed
        qed
      qed
    qed
  qed
qed

lemma clear_dir_gate:
  "permits (snd (clear_dir st rt keep dp w)) = permits w
   \<and> ungated_writes 0 (new_events w (snd (clear_dir st rt keep dp w))) = []"
proof -
  let ?g = "get_request st (target_dir st dp)"
  let ?w1 = "w\<lparr>trace := trace w @ [Sent ?g (answer rt (remote w) ?g)]\<rparr>"
  have nw: "\<not> is_write ?g" by (simp add: is_write_def)
  show ?thesis
  proof (cases "\<exists>r0 v items. answer rt (remote w) ?g = Inr r0 \<and> ok r0
                  \<and> loads rt (body r0) = Some v \<and> py_iter v = Inr items")
    case False
    then have "snd (clear_dir st rt keep dp w) = ?w1"
      by (auto simp: clear_dir_def send_eq split: sum.splits option.splits)
    then show ?thesis using nw by (simp add: new_events_def)
  next
    case True
    then obtain r0 v items where
      a: "answer rt (remote w) ?g = Inr r0" "ok r0" "loads rt (body r0) = Some v"
         "py_iter v = Inr items"
      by blast
    obtain out w' where l: "clear_loop st rt (keep_set keep) items 0 ?w1 = (out, w')"
      by (cases "clear_loop st rt (keep_set keep) items 0 ?w1")
    have c: "clear_dir st rt keep dp w = (out, w')"
      using a l by (simp add: clear_dir_def send_eq)
    from clear_loop_gate [OF l] obtain es where
      p: "permits w' = permits ?w1" and t: "trace w' = trace ?w1 @ es" and
      g: "\<forall>rest. ungated_writes 0 (es @ rest) = ungated_writes 0 rest"
      by blast
    from t have "trace w' = trace w @ (Sent ?g (Inr r0) # es)" using a by simp
    then have "new_events w w' = Sent ?g (Inr r0) # es" by (rule new_events_append)
    moreover from g have "ungated_writes 0 es = []" using spec [OF g, of "[]"] by simp
    ultimately show ?thesis unfolding c using p nw by simp
  qed
qed

text \<open>
  C2. Every write of the store holds a permit of the gate while it is sent, the
  placeholder of \<open>_ensure_dir\<close> included. In the code the placeholder is sent outside
  \<open>with self._sema\<close>: an upload into a subdirectory that does not exist yet sends it
  before any permit is taken, and it is the one write of the trace sent without a
  permit.
\<close>

theorem ensure_dir_ungated:
  "trace (snd (upload st_img rt_absent ''pics/a.png'' (new_world st_img 0))) =
     [Sent (get_request st_img ''img/'') (reply 404 ''Not Found''),
      Sent (gitkeep_request st_img) (reply 201 ''Created''),
      Acquire,
      Sent (create_request st_img ''a.png'' (b64encode [1, 2, 3])) (reply 201 ''Created''),
      Release]
   \<and> ungated_writes 0 (trace (snd (upload st_img rt_absent ''pics/a.png'' (new_world st_img 0))))
       = [gitkeep_request st_img]"
proof -
  have e: "ensure_dir st_img rt_absent (new_world st_img 0) =
     (Returns (),
      \<lparr>remote = 1, permits = 4, clock_reads = 0,
       trace = [Sent (get_request st_img ''img/'') (reply 404 ''Not Found''),
                Sent (gitkeep_request st_img) (reply 201 ''Created'')]\<rparr>)"
    by (simp add: ensure_dir_def send_eq ex_defs ok_def)
  have m: "meth (create_request st_img ''a.png'' (b64encode [1, 2, 3])) = PUT"
    by (simp add: create_request_def)
  have t: "trace (snd (upload st_img rt_absent ''pics/a.png'' (new_world st_img 0))) =
     [Sent (get_request st_img ''img/'') (reply 404 ''Not Found''),
      Sent (gitkeep_request st_img) (reply 201 ''Created''),
      Acquire,
      Sent (create_request st_img ''a.png'' (b64encode [1, 2, 3])) (reply 201 ''Created''),
      Release]"
    unfolding upload_def e
    by (simp add: upload_put_def send_eq m acquire_def release_def Let_def ok_def
        rt_absent_def scripted_def reply_def local_files_def is_file_def read_bytes_def)
  show ?thesis
    unfolding t by (simp add: is_write_def m)
qed

section \<open>Batch upload\<close>



lemma b_png [simp]: "path_name ''pics/b.png'' = ''b.png''"
  by (simp add: path_defs)






section \<open>Clearing a directory\<close>

lemma is_write_delete [simp]: "is_write (delete_request st p l s)"
  by (simp add: is_write_def delete_request_def)

lemma writes_of_simps [simp]:
  "writes_of [] = []"
  "writes_of (Acquire # es) = writes_of es"
  "writes_of (Release # es) = writes_of es"
  "writes_of (Sent q rep # es) = (if is_write q then q # writes_of es else writes_of es)"
  by (simp_all add: writes_of_def)











section \<open>Responses without success\<close>

lemma new_events_self [simp]: "new_events w w = []"
  by (simp add: new_events_def)

lemma new_events_trace_upd [simp]:
  "new_events w (w'\<lparr>trace := trace w @ es\<rparr>) = es"
  by (simp add: new_events_def)

lemma delete_failure:
  assumes "(q, Inr r) \<in> set (exchanges (new_events w (snd (delete st rt f w))))"
    and "is_write q" and "\<not> ok r"
  shows "fst (delete st rt f w) = Raises (RuntimeError (body r))
       \<and> last (exchanges (new_events w (snd (delete st rt f w)))) = (q, Inr r)"
  using assms
  by (auto simp: delete_def send_eq acquire_def release_def new_events_def is_write_def
      split: sum.splits option.splits if_splits)

lemma ensure_dir_exchanges:
  assumes "ensure_dir st rt w = (out, w1)"
  shows "\<exists>es. trace w1 = trace w @ es
          \<and> (\<forall>q rep. (q, rep) \<in> set (exchanges es) \<longrightarrow> \<not> is_write q \<or> q = gitkeep_request st)"
  using assms
  by (auto simp: ensure_dir_def send_eq is_write_def split: sum.splits if_splits)

lemma update_failure:
  assumes "(q, Inr r) \<in> set (exchanges (new_events w (snd (update st rt fp fn w))))"
    and "is_write q" and "\<not> ok r" and "q \<noteq> gitkeep_request st"
  shows "fst (update st rt fp fn w) = Raises (RuntimeError (body r))
       \<and> last (exchanges (new_events w (snd (update st rt fp fn w)))) = (q, Inr r)"
proof -
  obtain out w1 where e: "ensure_dir st rt w = (out, w1)"
    by (cases "ensure_dir st rt w")
  from ensure_dir_exchanges [OF e] obtain es where
    t: "trace w1 = trace w @ es" and
    g: "\<forall>q rep. (q, rep) \<in> set (exchanges es) \<longrightarrow> \<not> is_write q \<or> q = gitkeep_request st"
    by blast
  have ne: "(q, Inr r) \<notin> set (exchanges es)"
    using g assms(2,4) by blast
  show ?thesis
    using assms(1,2,3) ne
    by (auto simp: update_def e t send_eq acquire_def release_def new_events_def is_write_def
        Let_def split: sum.splits option.splits if_splits outcome.splits)
qed


lemma upload_failure:
  assumes "(q, Inr r) \<in> set (exchanges (new_events w (snd (upload st rt fp w))))"
    and "is_write q" and "\<not> ok r" and "q \<noteq> gitkeep_request st"
    and "\<not> (status_code r = 422 \<and> url q = api_url st (subdir st @ path_name fp))"
  shows "fst (upload st rt fp w) = Raises (RuntimeError (body r))
       \<and> last (exchanges (new_events w (snd (upload st rt fp w)))) = (q, Inr r)"
proof -
  obtain out w1 where e: "ensure_dir st rt w = (out, w1)"
    by (cases "ensure_dir st rt w")
  from ensure_dir_exchanges [OF e] obtain es where
    t: "trace w1 = trace w @ es" and
    g: "\<forall>q rep. (q, rep) \<in> set (exchanges es) \<longrightarrow> \<not> is_write q \<or> q = gitkeep_request st"
    by blast
  have ne: "(q, Inr r) \<notin> set (exchanges es)"
    using g assms(2,4) by blast
  have u: "url (create_request st n c) = api_url st (subdir st @ n)" for n c
    by (simp add: create_request_def)
  show ?thesis
    using assms(1,2,3,5) ne
    by (auto simp: upload_def upload_put_def e t u send_eq acquire_def release_def read_clock_def
        new_events_def is_write_def Let_def
        split: sum.splits option.splits if_splits outcome.splits prod.splits)
qed

lemma delete_item_exchanges:
  assumes "delete_item st rt item name w = (out, w1)"
  shows "\<exists>es. trace w1 = trace w @ es
          \<and> ((exchanges es = [] \<and> out \<noteq> Returns ())
             \<or> (\<exists>q e. exchanges es = [(q, Inl e)] \<and> out = Raises e)
             \<or> (\<exists>q r. exchanges es = [(q, Inr r)] \<and> ok r \<and> out = Returns ())
             \<or> (\<exists>q r. exchanges es = [(q, Inr r)] \<and> \<not> ok r
                   \<and> out = Raises (RuntimeError (body r))))"
  using assms
  by (auto simp: delete_item_def send_eq acquire_def release_def
      split: sum.splits option.splits if_splits)

lemma clear_loop_failure:
  assumes "clear_loop st rt keep items d w = (out, w')"
  shows "\<exists>es. trace w' = trace w @ es
          \<and> (\<forall>q r. (q, Inr r) \<in> set (exchanges es) \<and> \<not> ok r \<longrightarrow>
                out = Raises (RuntimeError (body r)) \<and> last (exchanges es) = (q, Inr r))"
  using assms
proof (induction items arbitrary: d w)
  case Nil
  then have "trace w' = trace w @ []" by simp
  then show ?case by force
next
  case (Cons item items)
  have stop: ?case if "w' = w"
  proof -
    from that have "trace w' = trace w @ []" by simp
    then show ?thesis by force
  qed
  show ?case
  proof (cases "getitem item ''type''")
    case (Inl e)
    with Cons.prems show ?thesis by (intro stop) simp
  next
    case (Inr t)
    note t = this
    show ?thesis
    proof (cases "t = JStr ''file''")
      case False
      with Cons.prems t have "clear_loop st rt keep items d w = (out, w')" by simp
      from Cons.IH [OF this] show ?thesis .
    next
      case True
      note isfile = this
      show ?thesis
      proof (cases "getitem item ''name''")
        case (Inl e)
        with Cons.prems t isfile show ?thesis by (intro stop) simp
      next
        case (Inr name)
        note name = this
        show ?thesis
        proof (cases "py_in name keep")
          case (Inl e)
          with Cons.prems t isfile name show ?thesis by (intro stop) simp
        next
          case (Inr b)
          show ?thesis
          proof (cases b)
            case True
            with Cons.prems t isfile name Inr
            have "clear_loop st rt keep items d w = (out, w')" by simp
            from Cons.IH [OF this] show ?thesis .
          next
            case False
            obtain o1 w1 where di: "delete_item st rt item name w = (o1, w1)"
              by (cases "delete_item st rt item name w")
            from delete_item_exchanges [OF di] obtain es where
              e1: "trace w1 = trace w @ es" and
              x1: "(exchanges es = [] \<and> o1 \<noteq> Returns ())
                   \<or> (\<exists>q e. exchanges es = [(q, Inl e)] \<and> o1 = Raises e)
                   \<or> (\<exists>q r. exchanges es = [(q, Inr r)] \<and> ok r \<and> o1 = Returns ())
                   \<or> (\<exists>q r. exchanges es = [(q, Inr r)] \<and> \<not> ok r
                         \<and> o1 = Raises (RuntimeError (body r)))"
              by blast
            show ?thesis
            proof (cases o1)
              case (Returns u)
              with Cons.prems t isfile name Inr False di
              have rest: "clear_loop st rt keep items (d + 1) w1 = (out, w')" by simp
              from Returns x1 obtain q1 r1 where
                q1: "exchanges es = [(q1, Inr r1)]" "ok r1"
                by auto
              from Cons.IH [OF rest] obtain es' where
                e2: "trace w' = trace w1 @ es'" and
                x2: "\<forall>q r. (q, Inr r) \<in> set (exchanges es') \<and> \<not> ok r \<longrightarrow>
                       out = Raises (RuntimeError (body r)) \<and> last (exchanges es') = (q, Inr r)"
                by blast
              have "trace w' = trace w @ (es @ es')" using e1 e2 by simp
              moreover have "\<forall>q r. (q, Inr r) \<in> set (exchanges (es @ es')) \<and> \<not> ok r \<longrightarrow>
                       out = Raises (RuntimeError (body r))
                       \<and> last (exchanges (es @ es')) = (q, Inr r)"
                using q1 x2 by auto
              ultimately show ?thesis by blast
            next
              case (Raises e)
              with Cons.prems t isfile name Inr False di
              have w': "w' = w1" "out = Raises e" by simp_all
              have "\<forall>q r. (q, Inr r) \<in> set (exchanges es) \<and> \<not> ok r \<longrightarrow>
                       out = Raises (RuntimeError (body r)) \<and> last (exchanges es) = (q, Inr r)"
                using x1 Raises w' by auto
              with e1 w' show ?thesis by blast
            next
              case Blocks
              with Cons.prems t isfile name Inr False di
              have w': "w' = w1" "out = Blocks" by simp_all
              have "\<forall>q r. (q, Inr r) \<in> set (exchanges es) \<and> \<not> ok r \<longrightarrow>
                       out = Raises (RuntimeError (body r)) \<and> last (exchanges es) = (q, Inr r)"
                using x1 Blocks w' by auto
              with e1 w' show ?thesis by blast
            qed
          qed
        qed
      qed
    qed
  qed
qed

lemma clear_dir_failure:
  assumes "(q, Inr r) \<in> set (exchanges (new_events w (snd (clear_dir st rt keep dp w))))"
    and "is_write q" and "\<not> ok r"
  shows "fst (clear_dir st rt keep dp w) = Raises (RuntimeError (body r))
       \<and> last (exchanges (new_events w (snd (clear_dir st rt keep dp w)))) = (q, Inr r)"
proof -
  let ?g = "get_request st (target_dir st dp)"
  let ?w1 = "w\<lparr>trace := trace w @ [Sent ?g (answer rt (remote w) ?g)]\<rparr>"
  have nw: "\<not> is_write ?g" by (simp add: is_write_def)
  show ?thesis
  proof (cases "\<exists>r0 v items. answer rt (remote w) ?g = Inr r0 \<and> ok r0
                  \<and> loads rt (body r0) = Some v \<and> py_iter v = Inr items")
    case False
    then have "exchanges (new_events w (snd (clear_dir st rt keep dp w)))
                 = [(?g, answer rt (remote w) ?g)]"
      by (auto simp: clear_dir_def send_eq split: sum.splits option.splits)
    with assms nw show ?thesis by auto
  next
    case True
    then obtain r0 v items where
      a: "answer rt (remote w) ?g = Inr r0" "ok r0" "loads rt (body r0) = Some v"
         "py_iter v = Inr items"
      by blast
    obtain out w' where l: "clear_loop st rt (keep_set keep) items 0 ?w1 = (out, w')"
      by (cases "clear_loop st rt (keep_set keep) items 0 ?w1")
    have c: "clear_dir st rt keep dp w = (out, w')"
      using a l by (simp add: clear_dir_def send_eq)
    from clear_loop_failure [OF l] obtain es where
      t: "trace w' = trace ?w1 @ es" and
      x: "\<forall>q r. (q, Inr r) \<in> set (exchanges es) \<and> \<not> ok r \<longrightarrow>
             out = Raises (RuntimeError (body r)) \<and> last (exchanges es) = (q, Inr r)"
      by blast
    from t have "trace w' = trace w @ (Sent ?g (Inr r0) # es)" using a by simp
    then have ne: "new_events w w' = Sent ?g (Inr r0) # es" by (rule new_events_append)
    from assms(1) have "(q, Inr r) \<in> set (exchanges es)"
      unfolding c using ne nw assms(2) by auto
    with x assms(3) have "out = Raises (RuntimeError (body r))" "last (exchanges es) = (q, Inr r)"
      "exchanges es \<noteq> []"
      by auto
    then show ?thesis unfolding c using ne by simp
  qed
qed

lemma delete_rejected:
  "delete st_img rt_reject ''a.png'' (new_world st_img 0) =
     (Raises (RuntimeError ''forbidden''),
      \<lparr>remote = 1, permits = 4, clock_reads = 0,
       trace = [Sent (get_request st_img ''img/a.png'') (reply 200 ''file''),
                Acquire,
                Sent (delete_request st_img ''img/a.png'' ''a.png'' (JStr ''abc''))
                  (reply 403 ''forbidden''),
                Release]\<rparr>)"
proof -
  have m: "meth (delete_request st p l s) = DELETE" for st p l s
    by (simp add: delete_request_def)
  show ?thesis
    by (simp add: delete_def send_eq m json_sha_def getitem_def rt_reject_def scripted_def
        reply_def ok_def acquire_def release_def new_world_def st_img_def)
qed

lemma upload_rejected:
  "upload st_img rt_reject ''pics/a.png'' (new_world st_img 0) =
     (Raises (RuntimeError ''forbidden''),
      \<lparr>remote = 1, permits = 4, clock_reads = 0,
       trace = [Sent (get_request st_img ''img/'') (reply 200 ''file''),
                Acquire,
                Sent (create_request st_img ''a.png'' (b64encode [1, 2, 3]))
                  (reply 403 ''forbidden''),
                Release]\<rparr>)"
proof -
  have m: "meth (create_request st n c) = PUT" for st n c
    by (simp add: create_request_def)
  show ?thesis
    by (simp add: upload_def ensure_dir_def upload_put_def send_eq m rt_reject_def scripted_def
        reply_def ok_def acquire_def release_def new_world_def st_img_def local_files_def
        is_file_def read_bytes_def Let_def)
qed

text \<open>
  C8, as the spec states it: a response without success to the hash lookup of
  \<open>update\<close> raises the error that carries the response body. It fails: on a lookup
  answered 500, \<open>update\<close> raises \<open>FileNotFoundError\<close> with the target name.
\<close>

theorem update_lookup_counterexample:
  "answer rt_500 (remote (new_world st_root 0)) (get_request st_root ''a.png'')
     = reply 500 ''server error''
   \<and> fst (update st_root rt_500 ''pics/a.png'' None (new_world st_root 0))
       = Raises (FileNotFoundError ''a.png'')
   \<and> fst (update st_root rt_500 ''pics/a.png'' None (new_world st_root 0))
       \<noteq> Raises (RuntimeError ''server error'')"
  by (simp add: update_def ensure_dir_def send_eq Let_def target_name_def rt_500_def scripted_def
      reply_def ok_def st_root_def st_img_def new_world_def)

text \<open>
  C8, amended. A response without success to a write of \<open>upload\<close>, \<open>update\<close>,
  \<open>delete\<close> or \<open>clear_dir\<close> raises \<open>RuntimeError\<close> with the body of that response, and
  it is the last request of the call. Two writes are set apart: the placeholder of
  \<open>_ensure_dir\<close>, whose response is not looked at, and the first create of \<open>upload\<close>
  when it is answered 422, which is sent again once under the new name. The lookups
  do otherwise: a lookup of \<open>update\<close> answered without success raises
  \<open>FileNotFoundError\<close> with the target name, a listing of \<open>clear_dir\<close> answered
  without success raises \<open>RuntimeError\<close> with a fixed message and the directory, and
  \<open>_ensure_dir\<close> raises only when a request of its own raised.
\<close>

theorem failures_raise:
  assumes "is_write q" and "\<not> ok r" and "q \<noteq> gitkeep_request st"
  shows "((q, Inr r) \<in> set (exchanges (new_events w (snd (upload st rt fp w))))
          \<and> \<not> (status_code r = 422 \<and> url q = api_url st (subdir st @ path_name fp)) \<longrightarrow>
            fst (upload st rt fp w) = Raises (RuntimeError (body r))
            \<and> last (exchanges (new_events w (snd (upload st rt fp w)))) = (q, Inr r))
       \<and> ((q, Inr r) \<in> set (exchanges (new_events w (snd (update st rt fp fn w)))) \<longrightarrow>
            fst (update st rt fp fn w) = Raises (RuntimeError (body r))
            \<and> last (exchanges (new_events w (snd (update st rt fp fn w)))) = (q, Inr r))
       \<and> ((q, Inr r) \<in> set (exchanges (new_events w (snd (delete st rt f w)))) \<longrightarrow>
            fst (delete st rt f w) = Raises (RuntimeError (body r))
            \<and> last (exchanges (new_events w (snd (delete st rt f w)))) = (q, Inr r))
       \<and> ((q, Inr r) \<in> set (exchanges (new_events w (snd (clear_dir st rt keep dp w)))) \<longrightarrow>
            fst (clear_dir st rt keep dp w) = Raises (RuntimeError (body r))
            \<and> last (exchanges (new_events w (snd (clear_dir st rt keep dp w)))) = (q, Inr r))
       \<and> (\<forall>w1 r'. ensure_dir st rt w = (Returns (), w1)
             \<and> answer rt (remote w1) (get_request st (subdir st @ target_name fp fn)) = Inr r'
             \<and> \<not> ok r' \<longrightarrow>
            fst (update st rt fp fn w) = Raises (FileNotFoundError (target_name fp fn)))
       \<and> (\<forall>r'. answer rt (remote w) (get_request st (target_dir st dp)) = Inr r' \<and> \<not> ok r' \<longrightarrow>
            fst (clear_dir st rt keep dp w)
              = Raises (RuntimeError (cannot_read_dir_msg @ target_dir st dp)))
       \<and> (\<forall>e. fst (ensure_dir st rt w) = Raises e \<longrightarrow>
            (\<exists>q'. (q', Inl e) \<in> set (exchanges (new_events w (snd (ensure_dir st rt w))))))"
proof -
  have 5: "\<forall>w1 r'. ensure_dir st rt w = (Returns (), w1)
             \<and> answer rt (remote w1) (get_request st (subdir st @ target_name fp fn)) = Inr r'
             \<and> \<not> ok r' \<longrightarrow>
            fst (update st rt fp fn w) = Raises (FileNotFoundError (target_name fp fn))"
    by (simp add: update_def send_eq Let_def)
  have 6: "\<forall>r'. answer rt (remote w) (get_request st (target_dir st dp)) = Inr r' \<and> \<not> ok r' \<longrightarrow>
            fst (clear_dir st rt keep dp w)
              = Raises (RuntimeError (cannot_read_dir_msg @ target_dir st dp))"
    by (simp add: clear_dir_def send_eq)
  have 7: "\<forall>e. fst (ensure_dir st rt w) = Raises e \<longrightarrow>
            (\<exists>q'. (q', Inl e) \<in> set (exchanges (new_events w (snd (ensure_dir st rt w)))))"
    by (auto simp: ensure_dir_def send_eq new_events_def split: sum.splits if_splits)
  from assms upload_failure [of q r w st rt fp] update_failure [of q r w st rt fp fn]
    delete_failure [of q r w st rt f] clear_dir_failure [of q r w st rt keep dp] 5 6 7
  show ?thesis by blast
qed

theorem failures_raise_witness:
  "is_write (delete_request st_img ''img/a.png'' ''a.png'' (JStr ''abc''))
   \<and> \<not> ok \<lparr>status_code = 403, body = ''forbidden''\<rparr>
   \<and> delete_request st_img ''img/a.png'' ''a.png'' (JStr ''abc'') \<noteq> gitkeep_request st_img
   \<and> (delete_request st_img ''img/a.png'' ''a.png'' (JStr ''abc''),
       Inr \<lparr>status_code = 403, body = ''forbidden''\<rparr>)
      \<in> set (exchanges (new_events (new_world st_img 0)
                (snd (delete st_img rt_reject ''a.png'' (new_world st_img 0)))))
   \<and> fst (delete st_img rt_reject ''a.png'' (new_world st_img 0))
       = Raises (RuntimeError ''forbidden'')
   \<and> last (exchanges (new_events (new_world st_img 0)
              (snd (delete st_img rt_reject ''a.png'' (new_world st_img 0)))))
       = (delete_request st_img ''img/a.png'' ''a.png'' (JStr ''abc''),
          Inr \<lparr>status_code = 403, body = ''forbidden''\<rparr>)
   \<and> is_write (create_request st_img ''a.png'' (b64encode [1, 2, 3]))
   \<and> create_request st_img ''a.png'' (b64encode [1, 2, 3]) \<noteq> gitkeep_request st_img
   \<and> (create_request st_img ''a.png'' (b64encode [1, 2, 3]),
       Inr \<lparr>status_code = 403, body = ''forbidden''\<rparr>)
      \<in> set (exchanges (new_events (new_world st_img 0)
                (snd (upload st_img rt_reject ''pics/a.png'' (new_world st_img 0)))))
   \<and> fst (upload st_img rt_reject ''pics/a.png'' (new_world st_img 0))
       = Raises (RuntimeError ''forbidden'')"
proof -
  let ?w = "new_world st_img (0::nat)"
  let ?r = "\<lparr>status_code = 403, body = ''forbidden''\<rparr>"
  let ?d = "delete_request st_img ''img/a.png'' ''a.png'' (JStr ''abc'')"
  let ?c = "create_request st_img ''a.png'' (b64encode [1, 2, 3])"
  have k: "\<not> ok ?r" by (simp add: ok_def)
  have wd: "is_write ?d" by (simp add: is_write_def delete_request_def)
  have wc: "is_write ?c" by (simp add: is_write_def create_request_def)
  have nd: "?d \<noteq> gitkeep_request st_img"
    by (simp add: delete_request_def gitkeep_request_def)
  have nc: "?c \<noteq> gitkeep_request st_img"
    by (simp add: create_request_def gitkeep_request_def)
  have md: "(?d, Inr ?r) \<in> set (exchanges (new_events ?w (snd (delete st_img rt_reject ''a.png'' ?w))))"
    unfolding delete_rejected by (simp add: new_events_def new_world_def reply_def)
  have mc: "(?c, Inr ?r) \<in> set (exchanges (new_events ?w (snd (upload st_img rt_reject ''pics/a.png'' ?w))))"
    unfolding upload_rejected by (simp add: new_events_def new_world_def reply_def)
  have x: "\<not> (status_code ?r = 422
            \<and> url ?c = api_url st_img (subdir st_img @ path_name ''pics/a.png''))"
    by simp
  from failures_raise [OF wd k nd, of ?w rt_reject "''pics/a.png''" None "''a.png''" None None] md
  have 1: "fst (delete st_img rt_reject ''a.png'' ?w) = Raises (RuntimeError (body ?r))
        \<and> last (exchanges (new_events ?w (snd (delete st_img rt_reject ''a.png'' ?w)))) = (?d, Inr ?r)"
    by blast
  from failures_raise [OF wc k nc, of ?w rt_reject "''pics/a.png''" None "''a.png''" None None] mc x
  have 2: "fst (upload st_img rt_reject ''pics/a.png'' ?w) = Raises (RuntimeError (body ?r))"
    by blast
  from 1 2 k wd wc nd nc md mc show ?thesis by simp
qed

end
